theory Spec2Isabelle
  imports Main "HOL-Library.AList"
begin

section \<open>Python values and strings\<close>

text \<open>
  The handlers of ProblemHunt work on Python strings, on values decoded from JSON and on
  dictionaries. A character is a code point below 256 (header values and query
  parameters are Latin-1 text). JSON numbers are restricted to integers; Python's
  \<open>None\<close> is \<open>JNull\<close>. A dictionary is an association list: lookup is \<open>map_of\<close>,
  assignment \<open>d[k] = v\<close> is \<open>AList.update\<close>, which keeps the position of an
  existing key and appends a new one, as Python's insertion order does.
  Values are compared with HOL equality, which agrees with Python's \<open>==\<close> on \<open>None\<close>,
  integers, strings and lists of these (Python also identifies \<open>True\<close> with \<open>1\<close> and
  compares dictionaries regardless of their order).
\<close>

datatype json =
    JNull
  | JBool bool
  | JNum int
  | JStr string
  | JArr "json list"
  | JObj "(string \<times> json) list"

type_synonym dict = "(string \<times> json) list"

text \<open>Truth value of a Python object, as tested by \<open>if not x\<close>.\<close>

fun truthy :: "json \<Rightarrow> bool" where
  "truthy JNull = False"
| "truthy (JBool b) = b"
| "truthy (JNum n) = (n \<noteq> 0)"
| "truthy (JStr s) = (s \<noteq> [])"
| "truthy (JArr xs) = (xs \<noteq> [])"
| "truthy (JObj kvs) = (kvs \<noteq> [])"

text \<open>\<open>d.get(k)\<close> and \<open>d.get(k, default)\<close>.\<close>

definition dict_get :: "dict \<Rightarrow> string \<Rightarrow> json" where
  "dict_get d k = (case map_of d k of None \<Rightarrow> JNull | Some v \<Rightarrow> v)"

definition dict_get_default :: "dict \<Rightarrow> string \<Rightarrow> json \<Rightarrow> json" where
  "dict_get_default d k dflt = (case map_of d k of None \<Rightarrow> dflt | Some v \<Rightarrow> v)"

text \<open>\<open>str.isspace\<close> on code points below 256.\<close>

definition isspace :: "char \<Rightarrow> bool" where
  "isspace c =
     (let n = (of_char c :: nat)
      in (9 \<le> n \<and> n \<le> 13) \<or> (28 \<le> n \<and> n \<le> 32) \<or> n = 133 \<or> n = 160)"

text \<open>\<open>s.strip()\<close>.\<close>

definition py_strip :: "string \<Rightarrow> string" where
  "py_strip s = rev (dropWhile isspace (rev (dropWhile isspace s)))"

text \<open>
  \<open>s.split()\<close>: the maximal runs of characters that are not whitespace. The second
  argument is the run read so far.
\<close>

fun split_ws :: "string \<Rightarrow> string \<Rightarrow> string list" where
  "split_ws [] cur = (if cur = [] then [] else [cur])"
| "split_ws (c # cs) cur =
     (if isspace c then (if cur = [] then split_ws cs [] else cur # split_ws cs [])
      else split_ws cs (cur @ [c]))"

definition py_split :: "string \<Rightarrow> string list" where
  "py_split s = split_ws s []"

text \<open>\<open>s.lower()\<close> on code points below 256.\<close>

definition lower_char :: "char \<Rightarrow> char" where
  "lower_char c =
     (let n = (of_char c :: nat)
      in if (65 \<le> n \<and> n \<le> 90) \<or> (192 \<le> n \<and> n \<le> 222 \<and> n \<noteq> 215)
         then char_of (n + 32) else c)"

definition py_lower :: "string \<Rightarrow> string" where
  "py_lower s = map lower_char s"

text \<open>\<open>s.startswith(p)\<close>.\<close>

definition startswith :: "string \<Rightarrow> string \<Rightarrow> bool" where
  "startswith s p = (take (length p) s = p)"

text \<open>
  \<open>s.replace(old, '')\<close> for a non-empty \<open>old\<close>: every occurrence, left to right and
  without overlap, is removed. The number is how many characters of a match still have
  to be skipped.
\<close>

fun remove_all :: "string \<Rightarrow> nat \<Rightarrow> string \<Rightarrow> string" where
  "remove_all old k [] = []"
| "remove_all old (Suc k) (c # cs) = remove_all old k cs"
| "remove_all old 0 (c # cs) =
     (if old \<noteq> [] \<and> take (length old) (c # cs) = old
      then remove_all old (length old - 1) cs
      else c # remove_all old 0 cs)"

definition py_remove :: "string \<Rightarrow> string \<Rightarrow> string" where
  "py_remove s old = remove_all old 0 s"

definition isdigit :: "char \<Rightarrow> bool" where
  "isdigit c = (let n = (of_char c :: nat) in 48 \<le> n \<and> n \<le> 57)"

definition digit_val :: "char \<Rightarrow> int" where
  "digit_val c = int (of_char c) - 48"

text \<open>
  \<open>int(s)\<close> for a string: surrounding whitespace, an optional sign, then decimal
  digits, where single underscores may separate digits. \<open>None\<close> is \<open>ValueError\<close>.
\<close>

fun py_digits :: "string \<Rightarrow> bool \<Rightarrow> int \<Rightarrow> int option" where
  "py_digits [] prev acc = (if prev then Some acc else None)"
| "py_digits (c # cs) prev acc =
     (if isdigit c then py_digits cs True (acc * 10 + digit_val c)
      else if c = CHR ''_'' \<and> prev \<and> cs \<noteq> [] \<and> isdigit (hd cs) then py_digits cs False acc
      else None)"

definition py_int :: "string \<Rightarrow> int option" where
  "py_int s =
     (case py_strip s of
        [] \<Rightarrow> None
      | c # cs \<Rightarrow>
          if c = CHR ''-'' then map_option uminus (py_digits cs False 0)
          else if c = CHR ''+'' then py_digits cs False 0
          else py_digits (c # cs) False 0)"

section \<open>The JWT library\<close>

text \<open>
  Modelled from the spec: \<open>jwt.decode\<close> of the PyJWT package, which is imported by
  \<open>shared/auth.py\<close>, \<open>utils.py\<close> and \<open>PythonFunction/__init__.py\<close> and is not part of
  the sources. Section 4.1 of the specification gives its contract: the token must
  decode as header.payload.signature (otherwise \<open>MalformedToken\<close>); a header that
  declares a different or no algorithm than the expected ones is refused; the signature
  is recomputed over header and payload with the symmetric secret and compared with the
  supplied one (\<open>InvalidSignature\<close>); then the expiry claim is compared with the current
  time (\<open>TokenExpired\<close>).

  The calls in the sources pass the token, the secret and the list of algorithms and
  no audience, so the other checks that the library makes by default on the
  registered claims are made too. They are taken from the library (version 2.10), in
  its order: \<open>iat\<close> and \<open>nbf\<close> must not lie in the future; \<open>exp\<close> must lie in the
  future; a token that carries an audience is refused, since none is expected; \<open>sub\<close>
  and \<open>jti\<close> must be strings. A claim of time is read with \<open>int()\<close>: \<open>True\<close> counts
  as 1 and a string of digits as its number; a string that is no number is refused, and
  a value that \<open>int()\<close> does not take raises \<open>TypeError\<close>, which is not an exception of
  the library. The decoding of the three segments, the keyed hash and the texts of the
  errors are the library's and stay parameters.
\<close>

record jwt_token =
  alg :: "string option"
  claims :: dict
  signing_input :: string
  signature :: string

datatype verification_error =
    MalformedToken
  | InvalidAlgorithm
  | InvalidSignature
  | InvalidIssuedAt
  | InvalidNotBefore
  | InvalidExpiry
  | ImmatureSignature
  | InvalidAudience
  | InvalidSubject
  | InvalidJTI

datatype jwt_exception =
    ExpiredSignatureError
  | InvalidTokenError verification_error
  | BuiltinTypeError json

record pyjwt =
  segments :: "string \<Rightarrow> jwt_token option"
  sign :: "string \<Rightarrow> string \<Rightarrow> string \<Rightarrow> string"
  message :: "verification_error \<Rightarrow> string"
  type_error :: "json \<Rightarrow> string"

text \<open>\<open>int(payload[claim])\<close>, with the error of the claim when the text is no number.\<close>

definition claim_int :: "verification_error \<Rightarrow> json \<Rightarrow> jwt_exception + int" where
  "claim_int err x =
     (case x of
        JNum n \<Rightarrow> Inr n
      | JBool b \<Rightarrow> Inr (if b then 1 else 0)
      | JStr s \<Rightarrow> (case py_int s of None \<Rightarrow> Inl (InvalidTokenError err) | Some n \<Rightarrow> Inr n)
      | _ \<Rightarrow> Inl (BuiltinTypeError x))"

definition check_iat :: "int \<Rightarrow> dict \<Rightarrow> jwt_exception option" where
  "check_iat now payload =
     (case map_of payload ''iat'' of
        None \<Rightarrow> None
      | Some x \<Rightarrow>
          (case claim_int InvalidIssuedAt x of
             Inl e \<Rightarrow> Some e
           | Inr iat \<Rightarrow> if iat > now then Some (InvalidTokenError ImmatureSignature) else None))"

definition check_nbf :: "int \<Rightarrow> dict \<Rightarrow> jwt_exception option" where
  "check_nbf now payload =
     (case map_of payload ''nbf'' of
        None \<Rightarrow> None
      | Some x \<Rightarrow>
          (case claim_int InvalidNotBefore x of
             Inl e \<Rightarrow> Some e
           | Inr nbf \<Rightarrow> if nbf > now then Some (InvalidTokenError ImmatureSignature) else None))"

definition check_exp :: "int \<Rightarrow> dict \<Rightarrow> jwt_exception option" where
  "check_exp now payload =
     (case map_of payload ''exp'' of
        None \<Rightarrow> None
      | Some x \<Rightarrow>
          (case claim_int InvalidExpiry x of
             Inl e \<Rightarrow> Some e
           | Inr e \<Rightarrow> if e \<le> now then Some ExpiredSignatureError else None))"

definition check_aud :: "dict \<Rightarrow> jwt_exception option" where
  "check_aud payload =
     (case map_of payload ''aud'' of
        None \<Rightarrow> None
      | Some a \<Rightarrow> if truthy a then Some (InvalidTokenError InvalidAudience) else None)"

definition check_string :: "string \<Rightarrow> verification_error \<Rightarrow> dict \<Rightarrow> jwt_exception option" where
  "check_string claim err payload =
     (case map_of payload claim of
        None \<Rightarrow> None
      | Some (JStr s) \<Rightarrow> None
      | Some _ \<Rightarrow> Some (InvalidTokenError err))"

fun first_failure :: "jwt_exception option list \<Rightarrow> jwt_exception option" where
  "first_failure [] = None"
| "first_failure (None # checks) = first_failure checks"
| "first_failure (Some e # checks) = Some e"

definition validate_claims :: "int \<Rightarrow> dict \<Rightarrow> jwt_exception option" where
  "validate_claims now payload =
     first_failure
       [check_iat now payload, check_nbf now payload, check_exp now payload, check_aud payload,
        check_string ''sub'' InvalidSubject payload, check_string ''jti'' InvalidJTI payload]"

definition jwt_decode ::
  "pyjwt \<Rightarrow> int \<Rightarrow> string \<Rightarrow> string \<Rightarrow> string list \<Rightarrow> jwt_exception + dict" where
  "jwt_decode lib now token key algorithms =
     (case segments lib token of
        None \<Rightarrow> Inl (InvalidTokenError MalformedToken)
      | Some t \<Rightarrow>
          (case alg t of
             None \<Rightarrow> Inl (InvalidTokenError InvalidAlgorithm)
           | Some a \<Rightarrow>
               if a \<notin> set algorithms then Inl (InvalidTokenError InvalidAlgorithm)
               else if sign lib a key (signing_input t) \<noteq> signature t
                 then Inl (InvalidTokenError InvalidSignature)
               else (case validate_claims now (claims t) of
                       Some e \<Rightarrow> Inl e
                     | None \<Rightarrow> Inr (claims t))))"

section \<open>The process and the request\<close>

text \<open>
  What a handler reads from outside: the environment variables, the clock, the JWT
  library, the values of \<open>get_timestamp()\<close> (the n-th call of a request) and of
  \<open>generate_id()\<close>, and the interpreter's text of a list or a dictionary.
\<close>

record process =
  environ :: "string \<rightharpoonup> string"
  unix_now :: int
  jwt :: pyjwt
  timestamp :: "nat \<Rightarrow> string"
  uuid4 :: string
  repr :: "json \<Rightarrow> string"

text \<open>
  An \<open>HttpRequest\<close>: \<open>body\<close> is the parsed JSON body, \<open>None\<close> when \<open>get_json()\<close>
  raises \<open>ValueError\<close>.
\<close>

record http_request =
  headers :: "string \<rightharpoonup> string"
  route_params :: "string \<rightharpoonup> string"
  params :: "string \<rightharpoonup> string"
  body :: "json option"

section \<open>shared/auth.py\<close>

datatype auth_error = AuthError string

definition secret_missing :: string where
  "secret_missing =
     ''SUPABASE_JWT_SECRET environment variable is not set. '' @
     ''Please configure it in local.settings.json or Azure Function App settings.''"

definition get_jwt_secret :: "process \<Rightarrow> auth_error + string" where
  "get_jwt_secret p =
     (case environ p ''SUPABASE_JWT_SECRET'' of
        None \<Rightarrow> Inl (AuthError secret_missing)
      | Some secret \<Rightarrow> if secret = [] then Inl (AuthError secret_missing) else Inr secret)"

text \<open>The message of a malformed header; \<open>CHR 0x27\<close> is the apostrophe.\<close>

definition invalid_format :: string where
  "invalid_format =
     ''Invalid Authorization header format. Expected '' @ [CHR 0x27] @
     ''Bearer <token>'' @ [CHR 0x27]"

definition extract_token :: "http_request \<Rightarrow> auth_error + string" where
  "extract_token req =
     (case headers req ''Authorization'' of
        None \<Rightarrow> Inl (AuthError ''Missing Authorization header'')
      | Some auth_header \<Rightarrow>
          if auth_header = [] then Inl (AuthError ''Missing Authorization header'')
          else (case py_split auth_header of
                  [p0, p1] \<Rightarrow>
                    if py_lower p0 \<noteq> ''bearer''
                    then Inl (AuthError invalid_format)
                    else Inr p1
                | _ \<Rightarrow> Inl (AuthError invalid_format)))"

text \<open>
  \<open>get_jwt_secret\<close> is called inside the \<open>try\<close> of \<open>validate_jwt\<close>; the
  \<open>AuthError\<close> it raises is neither of the two JWT exceptions, so the last handler,
  \<open>except Exception\<close>, catches it and raises a new \<open>AuthError\<close>; so it does with a
  \<open>TypeError\<close> out of the library.
\<close>

definition validate_jwt :: "process \<Rightarrow> string \<Rightarrow> auth_error + dict" where
  "validate_jwt p token =
     (case get_jwt_secret p of
        Inl (AuthError e) \<Rightarrow> Inl (AuthError (''Token validation failed: '' @ e))
      | Inr secret \<Rightarrow>
          (case jwt_decode (jwt p) (unix_now p) token secret [''HS256''] of
             Inr payload \<Rightarrow> Inr payload
           | Inl ExpiredSignatureError \<Rightarrow> Inl (AuthError ''Token has expired'')
           | Inl (InvalidTokenError e) \<Rightarrow>
               Inl (AuthError (''Invalid token: '' @ message (jwt p) e))
           | Inl (BuiltinTypeError x) \<Rightarrow>
               Inl (AuthError (''Token validation failed: '' @ type_error (jwt p) x))))"

definition get_user_id_from_token :: "dict \<Rightarrow> auth_error + json" where
  "get_user_id_from_token payload =
     (let user_id = dict_get payload ''sub''
      in if \<not> truthy user_id then Inl (AuthError ''User ID not found in token payload'')
         else Inr user_id)"

definition authenticate_request :: "process \<Rightarrow> http_request \<Rightarrow> auth_error + (json \<times> dict)" where
  "authenticate_request p req =
     (case extract_token req of
        Inl e \<Rightarrow> Inl e
      | Inr token \<Rightarrow>
          (case validate_jwt p token of
             Inl e \<Rightarrow> Inl e
           | Inr payload \<Rightarrow>
               (case get_user_id_from_token payload of
                  Inl e \<Rightarrow> Inl e
                | Inr user_id \<Rightarrow> Inr (user_id, payload))))"

section \<open>utils.py\<close>

text \<open>
  \<open>get_authenticated_user_id\<close> returns \<open>None\<close> (here \<open>JNull\<close>) on every failure.
  \<open>a or b\<close> takes \<open>b\<close> when \<open>a\<close> is \<open>None\<close> or empty.
\<close>

definition header_or :: "http_request \<Rightarrow> string option" where
  "header_or req =
     (case headers req ''Authorization'' of
        None \<Rightarrow> headers req ''authorization''
      | Some h \<Rightarrow> if h = [] then headers req ''authorization'' else Some h)"

definition get_authenticated_user_id :: "process \<Rightarrow> http_request \<Rightarrow> json" where
  "get_authenticated_user_id p req =
     (case header_or req of
        None \<Rightarrow> JNull
      | Some auth_header \<Rightarrow>
          if auth_header = [] \<or> \<not> startswith auth_header ''Bearer '' then JNull
          else
            (let token = py_strip (py_remove auth_header ''Bearer '')
             in case environ p ''SUPABASE_JWT_SECRET'' of
                  None \<Rightarrow> JNull
                | Some secret \<Rightarrow>
                    if secret = [] then JNull
                    else (case jwt_decode (jwt p) (unix_now p) token secret [''HS256''] of
                            Inl _ \<Rightarrow> JNull
                          | Inr payload \<Rightarrow> dict_get payload ''sub'')))"

section \<open>More of Python\<close>

text \<open>
  The exceptions a handler can meet. Every handler catches them all and answers 500;
  the exception stands for the text \<open>str(e)\<close> in the \<open>details\<close> of that answer.
\<close>

datatype py_exception =
    ValueError string
  | TypeError
  | KeyError string
  | AttributeError
  | CosmosResourceNotFoundError string

text \<open>An integer operand: \<open>bool\<close> is a subtype of \<open>int\<close>; anything else raises.\<close>

fun num_of :: "json \<Rightarrow> int option" where
  "num_of (JNum n) = Some n"
| "num_of (JBool b) = Some (if b then 1 else 0)"
| "num_of _ = None"

text \<open>\<open>int(req.params.get(name, default))\<close>: the default is already an integer.\<close>

definition int_param :: "http_request \<Rightarrow> string \<Rightarrow> int \<Rightarrow> py_exception + int" where
  "int_param req name dflt =
     (case params req name of
        None \<Rightarrow> Inr dflt
      | Some s \<Rightarrow> (case py_int s of
                     None \<Rightarrow> Inl (ValueError ''invalid literal for int()'')
                   | Some n \<Rightarrow> Inr n))"

text \<open>The slice \<open>xs[i:j]\<close>: a negative bound counts from the end, every bound is clipped.\<close>

definition slice_index :: "nat \<Rightarrow> int \<Rightarrow> nat" where
  "slice_index n i = (if i < 0 then nat (max 0 (int n + i)) else min n (nat i))"

definition py_slice :: "'a list \<Rightarrow> int \<Rightarrow> int \<Rightarrow> 'a list" where
  "py_slice xs i j = drop (slice_index (length xs) i) (take (slice_index (length xs) j) xs)"

text \<open>Decimal text of an integer, and \<open>str(x)\<close>; the text of a list or a dictionary is
  the interpreter's \<open>repr\<close>, a parameter.\<close>

fun nat_str :: "nat \<Rightarrow> string" where
  "nat_str n = (if n < 10 then [char_of (48 + n)] else nat_str (n div 10) @ [char_of (48 + n mod 10)])"

definition int_str :: "int \<Rightarrow> string" where
  "int_str i = (if i < 0 then CHR ''-'' # nat_str (nat (- i)) else nat_str (nat i))"

fun py_str :: "(json \<Rightarrow> string) \<Rightarrow> json \<Rightarrow> string" where
  "py_str rp JNull = ''None''"
| "py_str rp (JBool b) = (if b then ''True'' else ''False'')"
| "py_str rp (JNum n) = int_str n"
| "py_str rp (JStr s) = s"
| "py_str rp v = rp v"








section \<open>utils.py, continued\<close>




section \<open>cosmos.py\<close>

text \<open>
  \<open>MockContainer\<close>: a dictionary from the id of an item to the item. A key that is a
  list or a dictionary is unhashable and raises \<open>TypeError\<close>. It is the one container
  that the sources hold, and the handlers are taken with it; the client of the Cosmos
  service is outside the sources.
\<close>

type_synonym item = dict
type_synonym container = "(json \<times> item) list"



text \<open>
  \<open>query_items\<close> ignores the text of the query. With parameters, an item is dropped
  when it has the field named by a parameter (without its \<open>@\<close>) with another value;
  an item without that field is kept. The result lists the stored objects themselves,
  each given here with the key it is stored under.
\<close>

definition param_mismatch :: "item \<Rightarrow> string \<times> json \<Rightarrow> bool" where
  "param_mismatch it param =
     (case map_of it (py_remove (fst param) ''@'') of
        None \<Rightarrow> False
      | Some v \<Rightarrow> v \<noteq> snd param)"

definition query_items :: "(string \<times> json) list \<Rightarrow> container \<Rightarrow> (json \<times> item) list" where
  "query_items parameters c =
     (if parameters = [] then c
      else filter (\<lambda>entry. \<not> list_ex (param_mismatch (snd entry)) parameters) c)"



text \<open>
  The module's \<open>containers\<close>, with a record of every call made on a container, in
  order: the store as a test double with a call count.
\<close>

datatype call = QueryItems string | CreateItem string | ReplaceItem string | DeleteItem string

record cosmos =
  problems :: container
  proposals :: container
  upvotes :: container
  tips :: container
  calls :: "call list"

definition record_call :: "call \<Rightarrow> cosmos \<Rightarrow> cosmos" where
  "record_call c db = db\<lparr>calls := calls db @ [c]\<rparr>"



section \<open>Responses\<close>

text \<open>
  The body of a response before \<open>json.dumps\<close>: \<open>{'error': m}\<close>,
  \<open>{'error': m, 'details': str(e)}\<close>, or a result.
\<close>

datatype reply = Error string | ErrorDetails string py_exception | Json json

datatype response = HttpResponse (status_code: int) (content: reply)


text \<open>The f-string \<open>f"{problem_id}-{user_id}"\<close>.\<close>

definition upvote_key :: "process \<Rightarrow> json \<Rightarrow> json \<Rightarrow> json" where
  "upvote_key p problem_id user_id =
     JStr (py_str (repr p) problem_id @ ''-'' @ py_str (repr p) user_id)"

section \<open>handlers/upvote\_problem.py\<close>




section \<open>handlers/remove\_upvote.py\<close>



section \<open>handlers/delete\_problem.py\<close>


section \<open>handlers/update\_problem.py\<close>






section \<open>handlers/create\_problem.py\<close>




section \<open>WalletById\<close>





section \<open>The listings\<close>

text \<open>
  \<open>sort(key=..., reverse=True)\<close>: a stable sort into descending order. Python compares
  the keys: integers among themselves and strings among themselves, by code points; any
  other pair raises \<open>TypeError\<close> (two lists, which Python compares element by element,
  raise here as well). A list of at most one item is not compared at all.
\<close>

fun str_less :: "string \<Rightarrow> string \<Rightarrow> bool" where
  "str_less [] [] = False"
| "str_less [] (y # ys) = True"
| "str_less (x # xs) [] = False"
| "str_less (x # xs) (y # ys) =
     ((of_char x :: nat) < of_char y \<or> (x = y \<and> str_less xs ys))"

fun insort_desc :: "('a \<Rightarrow> 'a \<Rightarrow> bool) \<Rightarrow> 'a \<Rightarrow> 'a list \<Rightarrow> 'a list" where
  "insort_desc lt x [] = [x]"
| "insort_desc lt x (y # ys) = (if lt x y then y # insort_desc lt x ys else x # y # ys)"

definition the_num :: "json \<Rightarrow> int" where
  "the_num v = (case num_of v of None \<Rightarrow> 0 | Some n \<Rightarrow> n)"

definition the_str :: "json \<Rightarrow> string" where
  "the_str v = (case v of JStr s \<Rightarrow> s | _ \<Rightarrow> [])"

definition is_str :: "json \<Rightarrow> bool" where
  "is_str v = (case v of JStr s \<Rightarrow> True | _ \<Rightarrow> False)"

definition sort_desc :: "(item \<Rightarrow> json) \<Rightarrow> item list \<Rightarrow> py_exception + item list" where
  "sort_desc key xs =
     (if length xs \<le> 1 then Inr xs
      else if list_all (\<lambda>x. num_of (key x) \<noteq> None) xs
        then Inr (foldr (insort_desc (\<lambda>a b. the_num (key a) < the_num (key b))) xs [])
      else if list_all (\<lambda>x. is_str (key x)) xs
        then Inr (foldr (insort_desc (\<lambda>a b. str_less (the_str (key a)) (the_str (key b)))) xs [])
      else Inl TypeError)"

text \<open>The three orders of a listing: by \<open>createdAt\<close>, by \<open>budgetValue\<close>, and
  otherwise by \<open>upvotes\<close>.\<close>

definition sort_problems :: "string \<Rightarrow> item list \<Rightarrow> py_exception + item list" where
  "sort_problems sort_by xs =
     (if sort_by = ''newest'' then sort_desc (\<lambda>x. dict_get_default x ''createdAt'' (JStr [])) xs
      else if sort_by = ''budget'' then sort_desc (\<lambda>x. dict_get_default x ''budgetValue'' (JNum 0)) xs
      else sort_desc (\<lambda>x. dict_get_default x ''upvotes'' (JNum 0)) xs)"

text \<open>\<open>[p for p in problems if budget_min <= p.get('budgetValue', 0) <= budget_max]\<close>.\<close>

fun budget_filter :: "int \<Rightarrow> int \<Rightarrow> item list \<Rightarrow> py_exception + item list" where
  "budget_filter lo hi [] = Inr []"
| "budget_filter lo hi (x # xs) =
     (case num_of (dict_get_default x ''budgetValue'' (JNum 0)) of
        None \<Rightarrow> Inl TypeError
      | Some v \<Rightarrow>
          (case budget_filter lo hi xs of
             Inl e \<Rightarrow> Inl e
           | Inr ys \<Rightarrow> Inr (if lo \<le> v \<and> v \<le> hi then x # ys else ys)))"

definition page :: "item list \<Rightarrow> int \<Rightarrow> int \<Rightarrow> reply" where
  "page xs limit offset =
     Json (JObj [(''problems'', JArr (map JObj (py_slice xs offset (offset + limit)))),
                 (''total'', JNum (int (length xs))),
                 (''limit'', JNum limit),
                 (''offset'', JNum offset)])"

subsection \<open>handlers/get\_problems.py\<close>

definition get_problems_list ::
  "string \<Rightarrow> string \<Rightarrow> int \<Rightarrow> int \<Rightarrow> int \<Rightarrow> int \<Rightarrow> cosmos \<Rightarrow> response \<times> cosmos" where
  "get_problems_list category sort_by budget_min budget_max limit offset db =
     (let db1 = record_call (QueryItems ''problems'') db
      in case budget_filter budget_min budget_max (map snd (query_items [] (problems db1))) of
           Inl e \<Rightarrow> (HttpResponse 500 (ErrorDetails ''Failed to fetch problems'' e), db1)
         | Inr in_budget \<Rightarrow>
             (let filtered =
                    (if category \<noteq> ''all''
                     then filter (\<lambda>x. dict_get x ''category'' = JStr category) in_budget
                     else in_budget)
              in case sort_problems sort_by filtered of
                   Inl e \<Rightarrow> (HttpResponse 500 (ErrorDetails ''Failed to fetch problems'' e), db1)
                 | Inr sorted_items \<Rightarrow> (HttpResponse 200 (page sorted_items limit offset), db1)))"

definition get_problems_handle :: "http_request \<Rightarrow> cosmos \<Rightarrow> response \<times> cosmos" where
  "get_problems_handle req db =
     (let category = (case params req ''category'' of None \<Rightarrow> ''all'' | Some c \<Rightarrow> c);
          sort_by = (case params req ''sortBy'' of None \<Rightarrow> ''upvotes'' | Some c \<Rightarrow> c)
      in case int_param req ''budgetMin'' 0 of
           Inl e \<Rightarrow> (HttpResponse 500 (ErrorDetails ''Failed to fetch problems'' e), db)
         | Inr budget_min \<Rightarrow>
       (case int_param req ''budgetMax'' 999999 of
           Inl e \<Rightarrow> (HttpResponse 500 (ErrorDetails ''Failed to fetch problems'' e), db)
         | Inr budget_max \<Rightarrow>
       (case int_param req ''limit'' 100 of
           Inl e \<Rightarrow> (HttpResponse 500 (ErrorDetails ''Failed to fetch problems'' e), db)
         | Inr limit \<Rightarrow>
       (case int_param req ''offset'' 0 of
           Inl e \<Rightarrow> (HttpResponse 500 (ErrorDetails ''Failed to fetch problems'' e), db)
         | Inr offset \<Rightarrow>
             get_problems_list category sort_by budget_min budget_max limit offset db))))"

subsection \<open>handlers/get\_user\_problems.py\<close>


subsection \<open>GetProblems (the posts of the caller)\<close>


section \<open>The other protected endpoints\<close>







text \<open>
  \<open>PythonFunction/__init__.py\<close>, the comments of a problem, has a verifier of its own,
  \<open>_get_supabase_user_id\<close>. It raises \<open>PermissionError\<close> for a header without the
  prefix and for every exception of the JWT library; \<open>main\<close> answers these with 401 and
  the text of the error, and any other exception (the missing secret, a \<open>TypeError\<close>)
  with 401 and \<open>Auth error\<close>. Here the verifier returns the body of that answer. The
  subject is returned as it is, even when it is missing.
\<close>

definition get_supabase_user_id :: "process \<Rightarrow> http_request \<Rightarrow> reply + json" where
  "get_supabase_user_id p req =
     (let auth = (case headers req ''Authorization'' of None \<Rightarrow> [] | Some a \<Rightarrow> a)
      in if \<not> startswith auth ''Bearer '' then Inl (Error ''Missing Bearer token'')
         else
           (let token = py_strip (py_remove auth ''Bearer '');
                no_secret = ErrorDetails ''Auth error''
                  (ValueError ''Missing required env var: SUPABASE_JWT_SECRET'')
            in case environ p ''SUPABASE_JWT_SECRET'' of
                 None \<Rightarrow> Inl no_secret
               | Some secret \<Rightarrow>
                   if secret = [] then Inl no_secret
                   else (case jwt_decode (jwt p) (unix_now p) token secret [''HS256''] of
                           Inr payload \<Rightarrow> Inr (dict_get payload ''sub'')
                         | Inl (BuiltinTypeError x) \<Rightarrow> Inl (ErrorDetails ''Auth error'' TypeError)
                         | Inl _ \<Rightarrow> Inl (Error ''Invalid token''))))"



section \<open>Predicates of the claims\<close>







section \<open>A concrete process, its tokens and requests\<close>

text \<open>
  A process whose secret is \<open>s3cret\<close> and whose clock reads 1000. Every token of its
  library but one is signed with the secret under HS256: \<open>tokA\<close> and \<open>tokB\<close> are
  tokens of the users \<open>U1\<close> and \<open>U2\<close>; \<open>tokE\<close> has an empty subject; \<open>tokAud\<close>
  carries an audience; \<open>tokNbf\<close> becomes valid at 3000; \<open>tokX\<close> has expired at 500;
  \<open>tokXNbf\<close> has expired at 500 and becomes valid at 3000.
  \<open>tokN\<close> declares the algorithm \<open>none\<close> and has the empty signature that this
  algorithm makes.
\<close>

definition demo_claims :: "string \<Rightarrow> int \<Rightarrow> dict" where
  "demo_claims sub e = [(''sub'', JStr sub), (''exp'', JNum e)]"

definition demo_token :: "string \<Rightarrow> dict \<Rightarrow> jwt_token" where
  "demo_token name cs =
     \<lparr>alg = Some ''HS256'', claims = cs, signing_input = name, signature = ''s3cret/'' @ name\<rparr>"

definition demo_jwt :: pyjwt where
  "demo_jwt =
     \<lparr>segments = (\<lambda>s.
        if s = ''tokA'' then Some (demo_token ''A'' (demo_claims ''U1'' 2000))
        else if s = ''tokB'' then Some (demo_token ''B'' (demo_claims ''U2'' 2000))
        else if s = ''tokE'' then Some (demo_token ''E'' (demo_claims [] 2000))
        else if s = ''tokAud''
          then Some (demo_token ''Aud'' (demo_claims ''U1'' 2000 @ [(''aud'', JStr ''authenticated'')]))
        else if s = ''tokNbf''
          then Some (demo_token ''Nbf'' (demo_claims ''U1'' 5000 @ [(''nbf'', JNum 3000)]))
        else if s = ''tokX'' then Some (demo_token ''X'' (demo_claims ''U1'' 500))
        else if s = ''tokXNbf''
          then Some (demo_token ''XNbf'' (demo_claims ''U1'' 500 @ [(''nbf'', JNum 3000)]))
        else if s = ''tokN'' then Some \<lparr>alg = Some ''none'', claims = demo_claims ''U1'' 2000,
                                   signing_input = ''N'', signature = []\<rparr>
        else None),
      sign = (\<lambda>a key msg. if a = ''none'' then [] else key @ ''/'' @ msg),
      message = (\<lambda>e. case e of
                   MalformedToken \<Rightarrow> ''Not enough segments''
                 | InvalidAlgorithm \<Rightarrow> ''The specified alg value is not allowed''
                 | InvalidSignature \<Rightarrow> ''Signature verification failed''
                 | InvalidIssuedAt \<Rightarrow> ''Issued At claim (iat) must be an integer.''
                 | InvalidNotBefore \<Rightarrow> ''Not Before claim (nbf) must be an integer.''
                 | InvalidExpiry \<Rightarrow> ''Expiration Time claim (exp) must be an integer.''
                 | ImmatureSignature \<Rightarrow> ''The token is not yet valid''
                 | InvalidAudience \<Rightarrow> ''Invalid audience''
                 | InvalidSubject \<Rightarrow> ''Subject must be a string''
                 | InvalidJTI \<Rightarrow> ''JWT ID must be a string''),
      type_error = (\<lambda>x. ''int() argument must be a string or a real number'')\<rparr>"

definition demo_process :: process where
  "demo_process =
     \<lparr>environ = [''SUPABASE_JWT_SECRET'' \<mapsto> ''s3cret''],
      unix_now = 1000,
      jwt = demo_jwt,
      timestamp = (\<lambda>n. if n = 0 then ''2024-01-01T00:00:00Z'' else ''2024-01-01T00:00:01Z''),
      uuid4 = ''id-1'',
      repr = (\<lambda>v. ''[]'')\<rparr>"

text \<open>A request for the problem \<open>P1\<close> with the given authorization header.\<close>

definition bearer :: "string \<Rightarrow> http_request" where
  "bearer h =
     \<lparr>headers = [''Authorization'' \<mapsto> h],
      route_params = [''id'' \<mapsto> ''P1''],
      params = Map.empty,
      body = None\<rparr>"







text \<open>
  The upvotes of a problem by a caller, and the state of the container in which every
  record is stored under the key of its problem and its caller, a key being used once.
\<close>

definition records_of :: "json \<Rightarrow> json \<Rightarrow> container \<Rightarrow> (json \<times> item) list" where
  "records_of problem_id user_id c =
     filter (\<lambda>e. dict_get (snd e) ''problemId'' = problem_id \<and>
                 dict_get (snd e) ''userId'' = user_id) c"

definition one_per_pair :: "process \<Rightarrow> container \<Rightarrow> bool" where
  "one_per_pair p c \<longleftrightarrow>
     distinct (map fst c) \<and>
     list_all (\<lambda>e. fst e = upvote_key p (dict_get (snd e) ''problemId'')
                                        (dict_get (snd e) ''userId'')) c"

section \<open>The token verifier\<close>

lemma lower_bearer: "py_lower ''Bearer'' = ''bearer''"
  by code_simp







lemma claim_int_Inr: "claim_int err x = Inr n \<Longrightarrow> claim_int err' x = Inr n"
  by (auto simp: claim_int_def split: json.splits option.splits)





lemma bearer_token_tokN: "py_strip (py_remove ''Bearer tokN'' ''Bearer '') = ''tokN''"
  by (simp add: py_strip_def py_remove_def isspace_def)

lemma header_or_bearer: "header_or (bearer h) = (if h = [] then None else Some h)"
  by (simp add: header_or_def bearer_def)

text \<open>
  C2. The verifier accepts HS256 only: the list of algorithms is the constant
  \<open>["HS256"]\<close> in both calls of \<open>jwt.decode\<close>. For every token whose header
  declares another algorithm or none, whatever its signature, the decoding is refused
  as an invalid algorithm, \<open>validate_jwt\<close> fails, and \<open>get_authenticated_user_id\<close>
  returns \<open>None\<close>.
\<close>

theorem algorithm_is_fixed:
  assumes "segments (jwt p) token = Some t" and "alg t \<noteq> Some ''HS256''"
  shows "jwt_decode (jwt p) (unix_now p) token secret [''HS256''] =
           Inl (InvalidTokenError InvalidAlgorithm) \<and>
         isl (validate_jwt p token) \<and>
         (environ p ''SUPABASE_JWT_SECRET'' = Some secret \<and> secret \<noteq> [] \<longrightarrow>
            validate_jwt p token =
              Inl (AuthError (''Invalid token: '' @ message (jwt p) InvalidAlgorithm))) \<and>
         (header_or req = Some h \<and> py_strip (py_remove h ''Bearer '') = token \<longrightarrow>
            get_authenticated_user_id p req = JNull)"
proof -
  have d: "jwt_decode (jwt p) (unix_now p) token k [''HS256''] =
             Inl (InvalidTokenError InvalidAlgorithm)" for k
    using assms by (cases "alg t") (auto simp: jwt_decode_def)
  have v: "isl (validate_jwt p token)"
    by (auto simp: validate_jwt_def d split: sum.splits auth_error.splits)
  have w: "environ p ''SUPABASE_JWT_SECRET'' = Some secret \<and> secret \<noteq> [] \<longrightarrow>
            validate_jwt p token =
              Inl (AuthError (''Invalid token: '' @ message (jwt p) InvalidAlgorithm))"
    by (simp add: validate_jwt_def get_jwt_secret_def d)
  have u: "header_or req = Some h \<and> py_strip (py_remove h ''Bearer '') = token \<longrightarrow>
            get_authenticated_user_id p req = JNull"
    by (auto simp: get_authenticated_user_id_def d split: option.splits)
  show ?thesis using d v w u by blast
qed

theorem algorithm_is_fixed_witness:
  "segments (jwt demo_process) ''tokN'' =
     Some \<lparr>alg = Some ''none'', claims = demo_claims ''U1'' 2000,
           signing_input = ''N'', signature = []\<rparr> \<and>
   sign (jwt demo_process) ''none'' ''s3cret'' ''N'' = [] \<and>
   validate_jwt demo_process ''tokN'' =
     Inl (AuthError (''Invalid token: '' @ ''The specified alg value is not allowed'')) \<and>
   get_authenticated_user_id demo_process (bearer ''Bearer tokN'') = JNull"
proof -
  let ?t = "\<lparr>alg = Some ''none'', claims = demo_claims ''U1'' 2000,
             signing_input = ''N'', signature = []\<rparr>"
  have h1: "segments (jwt demo_process) ''tokN'' = Some ?t"
    by (simp add: demo_process_def demo_jwt_def)
  have h2: "alg ?t \<noteq> Some ''HS256''" by simp
  have h3: "environ demo_process ''SUPABASE_JWT_SECRET'' = Some ''s3cret'' \<and> ''s3cret'' \<noteq> []"
    by (simp add: demo_process_def)
  have h4: "header_or (bearer ''Bearer tokN'') = Some ''Bearer tokN'' \<and>
            py_strip (py_remove ''Bearer tokN'' ''Bearer '') = ''tokN''"
    by (simp add: header_or_bearer bearer_token_tokN)
  have m: "message (jwt demo_process) InvalidAlgorithm = ''The specified alg value is not allowed''"
    by (simp add: demo_process_def demo_jwt_def)
  have s: "sign (jwt demo_process) ''none'' ''s3cret'' ''N'' = []"
    by (simp add: demo_process_def demo_jwt_def)
  show ?thesis
    using algorithm_is_fixed [OF h1 h2, of "''s3cret''" "bearer ''Bearer tokN''" "''Bearer tokN''"]
      h1 h3 h4 m s
    by simp
qed

section \<open>Requests that are not authenticated\<close>














text \<open>What \<open>get_authenticated_user_id\<close> does with a header that starts with
  \<open>Bearer\<close> and a blank, once the secret is there.\<close>

lemma guard_decodes:
  assumes "header_or req = Some h" and "startswith h ''Bearer ''"
    and "environ p ''SUPABASE_JWT_SECRET'' = Some secret" and "secret \<noteq> []"
  shows "get_authenticated_user_id p req =
           (case jwt_decode (jwt p) (unix_now p) (py_strip (py_remove h ''Bearer '')) secret
                   [''HS256''] of
              Inl e \<Rightarrow> JNull
            | Inr payload \<Rightarrow> dict_get payload ''sub'')"
proof -
  have "h \<noteq> []" using assms(2) by (auto simp: startswith_def)
  then show ?thesis using assms by (simp add: get_authenticated_user_id_def)
qed

section \<open>Expired tokens\<close>







section \<open>The missing secret\<close>




section \<open>The authorization header\<close>

lemma extract_token_cases:
  "extract_token req =
     (case headers req ''Authorization'' of
        None \<Rightarrow> Inl (AuthError ''Missing Authorization header'')
      | Some h \<Rightarrow>
          if h = [] then Inl (AuthError ''Missing Authorization header'')
          else if \<exists>b tok. py_split h = [b, tok] \<and> py_lower b = ''bearer''
            then Inr (py_split h ! 1)
          else Inl (AuthError invalid_format))"
proof (cases "headers req ''Authorization''")
  case None
  then show ?thesis by (simp add: extract_token_def)
next
  case (Some h)
  show ?thesis
  proof (cases "py_split h")
    case Nil
    then show ?thesis using Some by (simp add: extract_token_def)
  next
    case (Cons b rest)
    show ?thesis
    proof (cases rest)
      case Nil
      then show ?thesis using Some Cons by (simp add: extract_token_def)
    next
      case c2: (Cons tok rest2)
      then show ?thesis using Some Cons by (cases rest2) (simp_all add: extract_token_def)
    qed
  qed
qed

text \<open>
  C5, as amended. \<open>extract_token\<close> fails with the missing-header error when the header
  is absent or empty, and with the malformed-header error unless the header consists of
  exactly two tokens, separated by whitespace, the first of which is \<open>Bearer\<close> in any
  case of letters; in that case, and in no other, it returns the second token, which
  \<open>authenticate_request\<close> passes to the verifier. \<open>get_authenticated_user_id\<close> and the
  verifier of the comments do not count tokens: they fail (with \<open>None\<close>, and with
  \<open>Missing Bearer token\<close>) unless the header starts with \<open>Bearer\<close> in this very case
  and a blank, and they pass to the verifier the header without its occurrences of this
  prefix and without the whitespace around.
\<close>

theorem header_extraction:
  "(headers req ''Authorization'' = None \<or> headers req ''Authorization'' = Some [] \<longrightarrow>
      extract_token req = Inl (AuthError ''Missing Authorization header'')) \<and>
   (headers req ''Authorization'' = Some h \<and> h \<noteq> [] \<and>
    \<not> (\<exists>b tok. py_split h = [b, tok] \<and> py_lower b = ''bearer'') \<longrightarrow>
      extract_token req = Inl (AuthError invalid_format)) \<and>
   (headers req ''Authorization'' = Some h \<and> py_split h = [b, tok] \<and> py_lower b = ''bearer'' \<longrightarrow>
      extract_token req = Inr tok) \<and>
   (extract_token req = Inr tok \<longrightarrow>
      (\<exists>h b. headers req ''Authorization'' = Some h \<and> py_split h = [b, tok] \<and>
             py_lower b = ''bearer'') \<and>
      authenticate_request p req =
        (case validate_jwt p tok of
           Inl e \<Rightarrow> Inl e
         | Inr payload \<Rightarrow>
             (case get_user_id_from_token payload of
                Inl e \<Rightarrow> Inl e
              | Inr user_id \<Rightarrow> Inr (user_id, payload)))) \<and>
   (header_or req = None \<or> (\<exists>h. header_or req = Some h \<and> \<not> startswith h ''Bearer '') \<longrightarrow>
      get_authenticated_user_id p req = JNull) \<and>
   (header_or req = Some h \<and> startswith h ''Bearer '' \<and>
    environ p ''SUPABASE_JWT_SECRET'' = Some secret \<and> secret \<noteq> [] \<longrightarrow>
      get_authenticated_user_id p req =
        (case jwt_decode (jwt p) (unix_now p) (py_strip (py_remove h ''Bearer '')) secret
                [''HS256''] of
           Inl e \<Rightarrow> JNull
         | Inr payload \<Rightarrow> dict_get payload ''sub'')) \<and>
   (headers req ''Authorization'' = None \<or>
    (\<exists>h. headers req ''Authorization'' = Some h \<and> \<not> startswith h ''Bearer '') \<longrightarrow>
      get_supabase_user_id p req = Inl (Error ''Missing Bearer token'')) \<and>
   (headers req ''Authorization'' = Some h \<and> startswith h ''Bearer '' \<and>
    environ p ''SUPABASE_JWT_SECRET'' = Some secret \<and> secret \<noteq> [] \<longrightarrow>
      get_supabase_user_id p req =
        (case jwt_decode (jwt p) (unix_now p) (py_strip (py_remove h ''Bearer '')) secret
                [''HS256''] of
           Inr payload \<Rightarrow> Inr (dict_get payload ''sub'')
         | Inl (BuiltinTypeError x) \<Rightarrow> Inl (ErrorDetails ''Auth error'' TypeError)
         | Inl _ \<Rightarrow> Inl (Error ''Invalid token'')))"
proof -
  have 1: "headers req ''Authorization'' = None \<or> headers req ''Authorization'' = Some [] \<longrightarrow>
      extract_token req = Inl (AuthError ''Missing Authorization header'')"
    by (auto simp: extract_token_cases)
  have 2: "headers req ''Authorization'' = Some h \<and> h \<noteq> [] \<and>
    \<not> (\<exists>b tok. py_split h = [b, tok] \<and> py_lower b = ''bearer'') \<longrightarrow>
      extract_token req = Inl (AuthError invalid_format)"
    by (simp add: extract_token_cases)
  have ne: "h \<noteq> []" if "py_split h = [b, tok]"
    using that by (auto simp: py_split_def)
  have 3: "headers req ''Authorization'' = Some h \<and> py_split h = [b, tok] \<and>
      py_lower b = ''bearer'' \<longrightarrow> extract_token req = Inr tok"
    using ne by (auto simp: extract_token_cases)
  have 4: "extract_token req = Inr tok \<longrightarrow>
      (\<exists>h b. headers req ''Authorization'' = Some h \<and> py_split h = [b, tok] \<and>
             py_lower b = ''bearer'')"
    by (auto simp: extract_token_cases split: option.splits if_splits)
  have 5: "extract_token req = Inr tok \<longrightarrow>
      authenticate_request p req =
        (case validate_jwt p tok of
           Inl e \<Rightarrow> Inl e
         | Inr payload \<Rightarrow>
             (case get_user_id_from_token payload of
                Inl e \<Rightarrow> Inl e
              | Inr user_id \<Rightarrow> Inr (user_id, payload)))"
    by (simp add: authenticate_request_def)
  have 6: "header_or req = None \<or> (\<exists>h. header_or req = Some h \<and> \<not> startswith h ''Bearer '') \<longrightarrow>
      get_authenticated_user_id p req = JNull"
    by (auto simp: get_authenticated_user_id_def)
  have 7: "header_or req = Some h \<and> startswith h ''Bearer '' \<and>
    environ p ''SUPABASE_JWT_SECRET'' = Some secret \<and> secret \<noteq> [] \<longrightarrow>
      get_authenticated_user_id p req =
        (case jwt_decode (jwt p) (unix_now p) (py_strip (py_remove h ''Bearer '')) secret
                [''HS256''] of
           Inl e \<Rightarrow> JNull
         | Inr payload \<Rightarrow> dict_get payload ''sub'')"
    using guard_decodes by blast
  have 8: "headers req ''Authorization'' = None \<or>
    (\<exists>h. headers req ''Authorization'' = Some h \<and> \<not> startswith h ''Bearer '') \<longrightarrow>
      get_supabase_user_id p req = Inl (Error ''Missing Bearer token'')"
    by (auto simp: get_supabase_user_id_def startswith_def)
  have 9: "headers req ''Authorization'' = Some h \<and> startswith h ''Bearer '' \<and>
    environ p ''SUPABASE_JWT_SECRET'' = Some secret \<and> secret \<noteq> [] \<longrightarrow>
      get_supabase_user_id p req =
        (case jwt_decode (jwt p) (unix_now p) (py_strip (py_remove h ''Bearer '')) secret
                [''HS256''] of
           Inr payload \<Rightarrow> Inr (dict_get payload ''sub'')
         | Inl (BuiltinTypeError x) \<Rightarrow> Inl (ErrorDetails ''Auth error'' TypeError)
         | Inl _ \<Rightarrow> Inl (Error ''Invalid token''))"
    by (simp add: get_supabase_user_id_def)
  show ?thesis using 1 2 3 4 5 6 7 8 9 by blast
qed

lemma lower_basic: "py_lower ''Basic'' \<noteq> ''bearer''"
  by code_simp

lemma split_basic: "py_split ''Basic abc'' = [''Basic'', ''abc'']"
  by (simp add: py_split_def isspace_def)

lemma split_bearer_tokA: "py_split ''Bearer tokA'' = [''Bearer'', ''tokA'']"
  by (simp add: py_split_def isspace_def)

theorem header_extraction_witness:
  "extract_token (bearer ''Bearer tokA'') = Inr ''tokA'' \<and>
   extract_token (bearer ''Basic abc'') = Inl (AuthError invalid_format) \<and>
   get_authenticated_user_id demo_process (bearer ''bearer tokA'') = JNull"
proof -
  have h1: "headers (bearer ''Bearer tokA'') ''Authorization'' = Some ''Bearer tokA'' \<and>
            py_split ''Bearer tokA'' = [''Bearer'', ''tokA''] \<and> py_lower ''Bearer'' = ''bearer''"
    by (simp add: bearer_def split_bearer_tokA lower_bearer)
  have h2: "headers (bearer ''Basic abc'') ''Authorization'' = Some ''Basic abc'' \<and>
            ''Basic abc'' \<noteq> [] \<and>
            \<not> (\<exists>b tok. py_split ''Basic abc'' = [b, tok] \<and> py_lower b = ''bearer'')"
    by (simp add: bearer_def split_basic lower_basic)
  have h3: "header_or (bearer ''bearer tokA'') = None \<or>
            (\<exists>h. header_or (bearer ''bearer tokA'') = Some h \<and> \<not> startswith h ''Bearer '')"
    by (simp add: header_or_bearer startswith_def)
  note a = mp [OF header_extraction [of "bearer ''Bearer tokA''" "''Bearer tokA''" "''Bearer''"
        "''tokA''", THEN conjunct2, THEN conjunct2, THEN conjunct1] h1]
  note b = mp [OF header_extraction [of "bearer ''Basic abc''" "''Basic abc''",
        THEN conjunct2, THEN conjunct1] h2]
  note c = mp [OF header_extraction [of "bearer ''bearer tokA''" _ _ _ demo_process,
        THEN conjunct2, THEN conjunct2, THEN conjunct2, THEN conjunct2, THEN conjunct1] h3]
  show ?thesis
    by (intro conjI) (rule a b c)+
qed

text \<open>
  C5 as stated fails. With the header \<open>Bearer Bearer tokA\<close>, which has three tokens,
  \<open>get_authenticated_user_id\<close> does not fail: it removes both prefixes, passes \<open>tokA\<close>
  to the verifier and returns the user \<open>U1\<close>. With the header \<open>Bearer a b\<close> it
  passes \<open>a b\<close> to the verifier. An empty header is answered by \<open>extract_token\<close> as
  a missing one, not as a malformed one.
\<close>

theorem three_tokens_counterexample:
  "py_split ''Bearer Bearer tokA'' = [''Bearer'', ''Bearer'', ''tokA''] \<and>
   get_authenticated_user_id demo_process (bearer ''Bearer Bearer tokA'') = JStr ''U1'' \<and>
   py_strip (py_remove ''Bearer a b'' ''Bearer '') = ''a b'' \<and>
   headers (bearer []) ''Authorization'' = Some [] \<and>
   extract_token (bearer []) = Inl (AuthError ''Missing Authorization header'')"
proof -
  have t: "py_strip (py_remove ''Bearer Bearer tokA'' ''Bearer '') = ''tokA''"
    by (simp add: py_strip_def py_remove_def isspace_def)
  have g: "get_authenticated_user_id demo_process (bearer ''Bearer Bearer tokA'') = JStr ''U1''"
    by (simp add: get_authenticated_user_id_def header_or_bearer startswith_def t
        jwt_decode_def demo_process_def demo_jwt_def demo_token_def demo_claims_def
        validate_claims_def check_iat_def check_nbf_def check_exp_def check_aud_def
        check_string_def claim_int_def dict_get_def)
  show ?thesis
    using g
    by (simp add: py_split_def isspace_def py_strip_def py_remove_def extract_token_def
        bearer_def)
qed

section \<open>Removing an upvote\<close>

lemma problems_record_call [simp]: "problems (record_call c db) = problems db"
  by (simp add: record_call_def)

lemma upvotes_record_call [simp]: "upvotes (record_call c db) = upvotes db"
  by (simp add: record_call_def)

lemma map_of_update_other:
  "k \<noteq> k' \<Longrightarrow> map_of (AList.update k v al) k' = map_of al k'"
  by (simp add: update_conv')










end
